theory Spec2Isabelle
  imports Main "HOL-Library.Word"
begin

section \<open>Strings, failures and the library functions the parser calls\<close>

text \<open>
  The source is \<^verbatim>\<open>sisparse/sisparse.go\<close>. A Go string is modelled as the list of its
  Unicode code points (the strings are taken to be valid UTF-8, so that equality of
  strings is equality of these lists and the conversion \<^verbatim>\<open>[]rune(s)\<close> is the identity).
  The day abbreviations of the source are not ASCII, hence code points and not bytes.
\<close>

type_synonym rune = nat
type_synonym gostring = "rune list"

definition str :: "string \<Rightarrow> gostring" where
  \<comment> \<open>an ASCII literal as a Go string\<close>
  "str s = map of_char s"

text \<open>
  Every way the source can fail. \<open>ReturnedError\<close> and \<open>ScheduleUrlNotFound\<close> are error
  values returned to the caller; all the others are panics (explicit calls of \<^verbatim>\<open>panic\<close>,
  or the run-time faults of indexing and slicing).
\<close>

datatype failure =
    ReturnedError gostring
  | ScheduleUrlNotFound
  | PanicErr gostring
  | PanicIndexOutOfRange nat nat
  | PanicSliceBounds nat nat
  | PanicUnknownDay gostring
  | PanicUnableToParseTime gostring
  | PanicUnableToParseDuration gostring

fun is_panic :: "failure \<Rightarrow> bool" where
  "is_panic (ReturnedError _) = False"
| "is_panic ScheduleUrlNotFound = False"
| "is_panic _ = True"

text \<open>
  \<^verbatim>\<open>xs[i]\<close> on a Go slice: the element, or the run-time panic
  ``index out of range [i] with length n''.
\<close>

definition index :: "'a list \<Rightarrow> nat \<Rightarrow> failure + 'a" where
  "index xs i = (if i < length xs then Inr (xs ! i) else Inl (PanicIndexOutOfRange i (length xs)))"

text \<open>\<^verbatim>\<open>unicode.IsSpace\<close>: the code points with the White_Space property.\<close>

definition isSpace :: "rune \<Rightarrow> bool" where
  "isSpace c \<longleftrightarrow>
     (9 \<le> c \<and> c \<le> 13) \<or> c = 32 \<or> c = 133 \<or> c = 160 \<or> c = 5760 \<or>
     (8192 \<le> c \<and> c \<le> 8202) \<or> c = 8232 \<or> c = 8233 \<or> c = 8239 \<or> c = 8287 \<or> c = 12288"

text \<open>
  \<^verbatim>\<open>strings.Fields\<close>: the maximal runs of non-space code points, in order. The first
  argument of \<open>fieldsFrom\<close> is the field being read.
\<close>

fun fieldsFrom :: "gostring \<Rightarrow> gostring \<Rightarrow> gostring list" where
  "fieldsFrom cur [] = (if cur = [] then [] else [cur])"
| "fieldsFrom cur (c # cs) =
     (if isSpace c then (if cur = [] then fieldsFrom [] cs else cur # fieldsFrom [] cs)
      else fieldsFrom (cur @ [c]) cs)"

definition Fields :: "gostring \<Rightarrow> gostring list" where
  "Fields s = fieldsFrom [] s"

text \<open>\<^verbatim>\<open>strings.TrimSpace\<close>: leading and trailing white space removed.\<close>

definition TrimSpace :: "gostring \<Rightarrow> gostring" where
  "TrimSpace s = rev (dropWhile isSpace (rev (dropWhile isSpace s)))"

text \<open>
  \<^verbatim>\<open>strconv.Atoi\<close> for a 64-bit \<^verbatim>\<open>int\<close>: an optional sign, then one or more ASCII
  digits, read in base ten; a value outside the range of \<^verbatim>\<open>int\<close> is an error, as is
  any other character. \<open>None\<close> is the error.
\<close>

definition isDigit :: "rune \<Rightarrow> bool" where
  "isDigit c \<longleftrightarrow> 48 \<le> c \<and> c \<le> 57"

fun digitsValue :: "int \<Rightarrow> gostring \<Rightarrow> int" where
  "digitsValue n [] = n"
| "digitsValue n (c # cs) = digitsValue (n * 10 + (int c - 48)) cs"

definition Atoi :: "gostring \<Rightarrow> int option" where
  "Atoi s =
     (let neg = (s \<noteq> [] \<and> hd s = 45);
          ds = (if s \<noteq> [] \<and> (hd s = 45 \<or> hd s = 43) then tl s else s)
      in if ds = [] \<or> \<not> list_all isDigit ds then None
         else let v = (if neg then - digitsValue 0 ds else digitsValue 0 ds)
              in if - (2 ^ 63) \<le> v \<and> v < 2 ^ 63 then Some v else None)"

text \<open>
  A \<^verbatim>\<open>time.Time\<close> without monotonic clock reading and in UTC is modelled as its
  instant: the nanoseconds since Go's zero \<^verbatim>\<open>Time\<close> (January 1 of year 1, 00:00 UTC), so
  that the zero value is \<open>0\<close>. \<^verbatim>\<open>time.Parse\<close> with the layout \<^verbatim>\<open>"15:04"\<close> reads an hour of
  one or two digits, a colon and a minute of exactly two digits, with nothing after
  them, and returns that time of day on January 1 of year 0, which is 366 days before the
  zero \<^verbatim>\<open>Time\<close>.
\<close>

type_synonym gotime = int

definition nanosPerMinute :: int where
  "nanosPerMinute = 60000000000"

definition clock :: "int \<Rightarrow> int \<Rightarrow> gotime" where
  \<comment> \<open>\<open>h:m\<close> on January 1 of year 0\<close>
  "clock h m = (h * 60 + m - 366 * 1440) * nanosPerMinute"

definition digit :: "rune \<Rightarrow> int" where
  "digit c = int c - 48"

fun time_Parse :: "gostring \<Rightarrow> gotime option" where
  "time_Parse (a # b # rest) =
     (if \<not> isDigit a then None
      else
        let (h, value) = (if isDigit b then (digit a * 10 + digit b, rest) else (digit a, b # rest))
        in if 24 \<le> h then None
           else (case value of
                   [c, m1, m0] \<Rightarrow>
                     if c = 58 \<and> isDigit m1 \<and> isDigit m0 \<and> digit m1 * 10 + digit m0 < 60
                     then Some (clock h (digit m1 * 10 + digit m0))
                     else None
                 | _ \<Rightarrow> None))"
| "time_Parse _ = None"

text \<open>
  \<^verbatim>\<open>time.Minute * time.Duration(d)\<close>: a \<^verbatim>\<open>Duration\<close> is a signed 64-bit count of
  nanoseconds and the product wraps around. \<^verbatim>\<open>Time.Add\<close> then adds the duration to the
  instant (its saturation needs a sum of seconds beyond 64 bits, which a duration added to a
  time of day in year 0 cannot reach).
\<close>

definition minutes :: "int \<Rightarrow> int" where
  "minutes d = sint ((word_of_int nanosPerMinute :: 64 word) * word_of_int d)"

definition Add :: "gotime \<Rightarrow> int \<Rightarrow> gotime" where
  "Add t d = t + d"

section \<open>The event and the token decoders\<close>

text \<open>
  Modelled from the spec: the declaration of the type \<^verbatim>\<open>Event\<close> is not in
  \<^verbatim>\<open>sisparse.go\<close>; the fields are the ones the source assigns (\<^verbatim>\<open>Type\<close>, \<^verbatim>\<open>Name\<close>,
  \<^verbatim>\<open>Teacher\<close>, \<^verbatim>\<open>Day\<close>, \<^verbatim>\<open>TimeFrom\<close>, \<^verbatim>\<open>TimeTo\<close>, \<^verbatim>\<open>WeekParity\<close>), which are the
  fields of the spec's data model.
\<close>

record event =
  Type :: gostring
  Name :: gostring
  Teacher :: gostring
  Day :: int
  TimeFrom :: gotime
  TimeTo :: gotime
  WeekParity :: int

definition emptyEvent :: event where
  \<comment> \<open>\<^verbatim>\<open>Event{}\<close>, every field at its zero value\<close>
  "emptyEvent = \<lparr>Type = [], Name = [], Teacher = [], Day = 0, TimeFrom = 0, TimeTo = 0,
     WeekParity = 0\<rparr>"

definition days :: "gostring list" where
  \<comment> \<open>the five abbreviations of \<^verbatim>\<open>days\<close>; the second starts with U+00DA, the fourth with U+010C, the fifth ends with U+00E1\<close>
  "days = [str ''Po'', [218, 116], str ''St'', [268, 116], [80, 225]]"

fun parseDayFrom :: "int \<Rightarrow> gostring list \<Rightarrow> gostring \<Rightarrow> failure + int" where
  "parseDayFrom i [] day = Inl (PanicUnknownDay day)"
| "parseDayFrom i (d # ds) day = (if d = day then Inr i else parseDayFrom (i + 1) ds day)"

definition parseDay :: "gostring \<Rightarrow> failure + int" where
  "parseDay day = parseDayFrom 0 days day"

definition oddMarker :: gostring where
  \<comment> \<open>the marker compared with \<^verbatim>\<open>w[1]\<close>: ``Lich'' followed by U+00E9\<close>
  "oddMarker = str ''Lich'' @ [233]"

definition parseDurationAndWeekParity :: "gostring \<Rightarrow> failure + (int \<times> int)" where
  "parseDurationAndWeekParity dur =
     (let w = Fields dur in
      case index w 0 of
        Inl f \<Rightarrow> Inl f
      | Inr w0 \<Rightarrow>
          (case Atoi w0 of
             None \<Rightarrow> Inl (PanicUnableToParseDuration w0)
           | Some d \<Rightarrow>
               Inr (d, if length w > 1 then (if w ! 1 = oddMarker then 1 else 2) else 0)))"

text \<open>
  \<^verbatim>\<open>daytimeRunes[3:]\<close> panics on a string of fewer than three code points.
  \<^verbatim>\<open>daytimeRunes[:2]\<close> on a string of fewer than two code points panics when the
  capacity of the converted slice is its length, which is what the model takes; with a
  larger capacity the day is read with zero padding and \<^verbatim>\<open>parseDay\<close> panics on it, so
  that the call fails in either case. The code point at index 2 is not read.
\<close>

definition addEventScheduling :: "event \<Rightarrow> gostring \<Rightarrow> gostring \<Rightarrow> failure + event" where
  "addEventScheduling e daytime dur =
     (if length daytime < 2 then Inl (PanicSliceBounds 2 (length daytime))
      else case parseDay (take 2 daytime) of
        Inl f \<Rightarrow> Inl f
      | Inr day \<Rightarrow>
          if length daytime < 3 then Inl (PanicSliceBounds 3 (length daytime))
          else (case time_Parse (drop 3 daytime) of
             None \<Rightarrow> Inl (PanicUnableToParseTime (drop 3 daytime))
           | Some timeFrom \<Rightarrow>
               (case parseDurationAndWeekParity dur of
                  Inl f \<Rightarrow> Inl f
                | Inr (d, parity) \<Rightarrow>
                    Inr (e\<lparr>Day := day, TimeFrom := timeFrom,
                           TimeTo := Add timeFrom (minutes d), WeekParity := parity\<rparr>))))"

section \<open>The HTML document model and the queries of the scraping library\<close>

text \<open>
  An \<^verbatim>\<open>html.Node\<close> with the fields the source reads. The parent pointers of the Go
  structure are replaced by the list of ancestors (nearest first) that a traversal carries.
\<close>

datatype node_type =
  ErrorNode | TextNode | DocumentNode | ElementNode | CommentNode | DoctypeNode | RawNode

datatype atom = atom_None | atom_A | atom_Tr | atom_Other nat

datatype html_node =
  Node (nType: node_type) (DataAtom: atom) (Data: gostring)
    (Attr: "(gostring \<times> gostring) list") (Children: "html_node list")

text \<open>\<^verbatim>\<open>scrape.Attr\<close>: the value of the first attribute with the key, or the empty string.\<close>

fun attrValue :: "(gostring \<times> gostring) list \<Rightarrow> gostring \<Rightarrow> gostring" where
  "attrValue [] key = []"
| "attrValue ((k, v) # as) key = (if k = key then v else attrValue as key)"

definition scrape_Attr :: "html_node \<Rightarrow> gostring \<Rightarrow> gostring" where
  "scrape_Attr n key = attrValue (Attr n) key"

text \<open>
  \<^verbatim>\<open>scrape.Find\<close>: the first node, in depth-first order from the root, that the matcher
  accepts.
\<close>

fun Find :: "(html_node \<Rightarrow> bool) \<Rightarrow> html_node \<Rightarrow> html_node option"
  and FindIn :: "(html_node \<Rightarrow> bool) \<Rightarrow> html_node list \<Rightarrow> html_node option" where
  "Find matcher (Node t a d at cs) =
     (if matcher (Node t a d at cs) then Some (Node t a d at cs) else FindIn matcher cs)"
| "FindIn matcher [] = None"
| "FindIn matcher (c # cs) =
     (case Find matcher c of Some n \<Rightarrow> Some n | None \<Rightarrow> FindIn matcher cs)"

text \<open>
  \<^verbatim>\<open>scrape.FindAll\<close>: the accepted nodes in depth-first order; the search does not go
  below an accepted node. The matcher sees the node's ancestors, as the Go matcher does
  through \<^verbatim>\<open>n.Parent\<close>.
\<close>

fun FindAll :: "(html_node list \<Rightarrow> html_node \<Rightarrow> bool) \<Rightarrow> html_node list \<Rightarrow> html_node \<Rightarrow> html_node list" where
  "FindAll matcher anc (Node t a d at cs) =
     (if matcher anc (Node t a d at cs) then [Node t a d at cs]
      else concat (map (FindAll matcher (Node t a d at cs # anc)) cs))"

text \<open>
  \<^verbatim>\<open>strings.Join\<close>, and \<^verbatim>\<open>scrape.Text\<close>: the data of the text nodes at or below the node,
  each trimmed, the empty ones dropped, joined by single spaces.
\<close>

fun Join :: "gostring list \<Rightarrow> gostring \<Rightarrow> gostring" where
  "Join [] sep = []"
| "Join [x] sep = x"
| "Join (x # y # zs) sep = x @ sep @ Join (y # zs) sep"

definition scrape_Text :: "html_node \<Rightarrow> gostring" where
  "scrape_Text n =
     Join (filter (\<lambda>s. s \<noteq> [])
            (map (\<lambda>t. TrimSpace (Data t)) (FindAll (\<lambda>_ m. nType m = TextNode) [] n)))
       (str '' '')"

text \<open>
  The nodes of a tree in depth-first order: alone, and with their ancestors.
\<close>

fun subnodes :: "html_node \<Rightarrow> html_node list" where
  "subnodes (Node t a d at cs) = Node t a d at cs # concat (map subnodes cs)"

fun nodes :: "html_node list \<Rightarrow> html_node \<Rightarrow> (html_node list \<times> html_node) list" where
  "nodes anc (Node t a d at cs) =
     (anc, Node t a d at cs) # concat (map (nodes (Node t a d at cs # anc)) cs)"

section \<open>The row parser and the table grouper\<close>

definition cols :: "html_node \<Rightarrow> gostring list" where
  \<comment> \<open>the texts of the children whose \<^verbatim>\<open>Data\<close> is not blank\<close>
  "cols row = map scrape_Text (filter (\<lambda>col. length (TrimSpace (Data col)) > 0) (Children row))"

definition parseEvent :: "html_node \<Rightarrow> failure + event" where
  "parseEvent row =
     (case index (cols row) 1 of Inl f \<Rightarrow> Inl f | Inr ty \<Rightarrow>
     (case index (cols row) 2 of Inl f \<Rightarrow> Inl f | Inr name \<Rightarrow>
     (case index (cols row) 3 of Inl f \<Rightarrow> Inl f | Inr teacher \<Rightarrow>
        if teacher = [] then Inr emptyEvent
        else
          (case index (cols row) 4 of Inl f \<Rightarrow> Inl f | Inr daytime \<Rightarrow>
          (case index (cols row) 6 of Inl f \<Rightarrow> Inl f | Inr dur \<Rightarrow>
             addEventScheduling (emptyEvent\<lparr>Type := ty, Name := name, Teacher := teacher\<rparr>)
               daytime dur)))))"

definition flush :: "event list list \<Rightarrow> event list \<Rightarrow> event list list" where
  \<comment> \<open>\<^verbatim>\<open>if len(group) > 0 { res = append(res, group) }\<close>\<close>
  "flush res grp = (if length grp > 0 then res @ [grp] else res)"

text \<open>
  The loop of \<^verbatim>\<open>parseCourseEvents\<close> over the rows, on the state \<open>(res, grp)\<close>
  (\<open>grp\<close> is the source's \<^verbatim>\<open>group\<close>). The read of \<^verbatim>\<open>group[0]\<close> for a continuation row
  panics when the accumulator is empty.
\<close>

fun groupRows :: "html_node list \<Rightarrow> event list list \<times> event list \<Rightarrow>
    failure + (event list list \<times> event list)" where
  "groupRows [] s = Inr s"
| "groupRows (row # rows) (res, grp) =
     (case parseEvent row of
        Inl f \<Rightarrow> Inl f
      | Inr event \<Rightarrow>
          if event = emptyEvent then groupRows rows (res, grp)
          else if Name event \<noteq> [] then groupRows rows (flush res grp, [] @ [event])
          else (case index grp 0 of
                  Inl f \<Rightarrow> Inl f
                | Inr g0 \<Rightarrow>
                    groupRows rows
                      (res, grp @ [event\<lparr>Name := Name g0, Teacher := Teacher g0\<rparr>])))"

definition rowMatcher :: "html_node list \<Rightarrow> html_node \<Rightarrow> bool" where
  \<comment> \<open>\<open>anc\<close> holds the parent, then the grandparent, when the node has them\<close>
  "rowMatcher anc n =
     (if DataAtom n = atom_Tr \<and> 0 < length anc \<and> 1 < length anc
      then scrape_Attr (anc ! 1) (str ''id'') = str ''table1'' \<and>
           scrape_Attr n (str ''class'') \<noteq> str ''head1''
      else False)"

definition eventsTable :: "html_node \<Rightarrow> html_node list" where
  "eventsTable root = FindAll rowMatcher [] root"

definition groupTable :: "html_node list \<Rightarrow> failure + event list list" where
  \<comment> \<open>\<^verbatim>\<open>parseCourseEvents\<close> from the rows found on\<close>
  "groupTable rows =
     (if length rows = 0 then Inr []
      else case groupRows rows ([], []) of
             Inl f \<Rightarrow> Inl f
           | Inr (res, grp) \<Rightarrow> Inr (flush res grp))"

section \<open>Navigation and retrieval\<close>

text \<open>
  The collaborators outside the repository are parameters: the HTTP fetch (an error or a
  response body), the HTML parser on a body (an error or the document), the URL parser and
  the resolution of a reference against a base, printed as a string.
\<close>

record ('b, 'u) collaborators =
  http_Get :: "gostring \<Rightarrow> gostring + 'b"
  html_Parse :: "'b \<Rightarrow> gostring + html_node"
  url_Parse :: "gostring \<Rightarrow> gostring + 'u"
  url_ResolveReference :: "'u \<Rightarrow> 'u \<Rightarrow> gostring"

text \<open>What a retrieval does to the outside: the requests sent and the bodies closed.\<close>

datatype 'b effect = HttpGet gostring | BodyClose 'b

definition sisUrlPrefix :: gostring where
  "sisUrlPrefix = str ''https://is.cuni.cz/studium/predmety/index.php?do=predmet&kod=''"

definition sisUrlSuffix :: gostring where
  "sisUrlSuffix = str ''&skr=2018&sem=1''"

definition sisUrl :: gostring where
  "sisUrl = sisUrlPrefix @ str ''%s'' @ sisUrlSuffix"

definition landingUrl :: "gostring \<Rightarrow> gostring" where
  \<comment> \<open>\<^verbatim>\<open>fmt.Sprintf(sisUrl, courseCode)\<close>\<close>
  "landingUrl courseCode = sisUrlPrefix @ courseCode @ sisUrlSuffix"

definition scheduleLinkText :: gostring where
  "scheduleLinkText = str ''Rozvrh''"

definition linkMatcher :: "html_node \<Rightarrow> bool" where
  "linkMatcher n = (if DataAtom n = atom_A then scrape_Text n = scheduleLinkText else False)"

definition getRelativeScheduleUrl :: "('b, 'u) collaborators \<Rightarrow> 'b \<Rightarrow> failure + gostring" where
  "getRelativeScheduleUrl c body =
     (case html_Parse c body of
        Inl err \<Rightarrow> Inl (PanicErr err)
      | Inr root \<Rightarrow>
          (case Find linkMatcher root of
             None \<Rightarrow> Inl ScheduleUrlNotFound
           | Some scheduleLink \<Rightarrow> Inr (scrape_Attr scheduleLink (str ''href''))))"

definition parseCourseEvents :: "('b, 'u) collaborators \<Rightarrow> 'b \<Rightarrow> failure + event list list" where
  "parseCourseEvents c body =
     (case html_Parse c body of
        Inl err \<Rightarrow> Inl (PanicErr err)
      | Inr root \<Rightarrow> groupTable (eventsTable root))"

definition getAbsoluteUrl :: "('b, 'u) collaborators \<Rightarrow> gostring \<Rightarrow> gostring \<Rightarrow> failure + gostring" where
  "getAbsoluteUrl c base relative =
     (case url_Parse c base of
        Inl err \<Rightarrow> Inl (PanicErr err)
      | Inr baseUrl \<Rightarrow>
          (case url_Parse c relative of
             Inl err \<Rightarrow> Inl (PanicErr err)
           | Inr relativeUrl \<Rightarrow> Inr (url_ResolveReference c baseUrl relativeUrl)))"

text \<open>
  \<^verbatim>\<open>GetCourseEvents\<close>: the result, and the effects in the order they happen. The source
  has no call of \<^verbatim>\<open>Close\<close> on a response body, so no \<open>BodyClose\<close> is ever recorded.
\<close>

definition GetCourseEvents :: "('b, 'u) collaborators \<Rightarrow> gostring \<Rightarrow>
    (failure + event list list) \<times> 'b effect list" where
  "GetCourseEvents c courseCode =
     (case http_Get c (landingUrl courseCode) of
        Inl err \<Rightarrow> (Inl (ReturnedError err), [HttpGet (landingUrl courseCode)])
      | Inr body1 \<Rightarrow>
          (case getRelativeScheduleUrl c body1 of
             Inl f \<Rightarrow> (Inl f, [HttpGet (landingUrl courseCode)])
           | Inr relativeScheduleUrl \<Rightarrow>
               (case getAbsoluteUrl c sisUrl relativeScheduleUrl of
                  Inl f \<Rightarrow> (Inl f, [HttpGet (landingUrl courseCode)])
                | Inr scheduleUrl \<Rightarrow>
                    (case http_Get c scheduleUrl of
                       Inl err \<Rightarrow>
                         (Inl (ReturnedError err),
                          [HttpGet (landingUrl courseCode), HttpGet scheduleUrl])
                     | Inr body2 \<Rightarrow>
                         (parseCourseEvents c body2,
                          [HttpGet (landingUrl courseCode), HttpGet scheduleUrl])))))"

section \<open>The vocabulary of the specification\<close>

text \<open>
  A row starts a group when the row parser returns an event that is not the empty event
  and has a name; it continues a group when that event has no name. The precondition of
  the grouper: every continuation row has a group-start row before it.
\<close>

definition isGroupStart :: "html_node \<Rightarrow> bool" where
  "isGroupStart r =
     (case parseEvent r of Inl _ \<Rightarrow> False | Inr e \<Rightarrow> e \<noteq> emptyEvent \<and> Name e \<noteq> [])"

definition isContinuation :: "html_node \<Rightarrow> bool" where
  "isContinuation r =
     (case parseEvent r of Inl _ \<Rightarrow> False | Inr e \<Rightarrow> e \<noteq> emptyEvent \<and> Name e = [])"

definition continuationsPreceded :: "html_node list \<Rightarrow> bool" where
  "continuationsPreceded rows \<longleftrightarrow>
     (\<forall>i<length rows. isContinuation (rows ! i) \<longrightarrow> (\<exists>j<i. isGroupStart (rows ! j)))"

section \<open>Sample documents\<close>

text \<open>
  Rows and pages as the HTML parser builds them: a row is a \<^verbatim>\<open>tr\<close> element whose children
  are \<^verbatim>\<open>td\<close> elements, each holding one text node.
\<close>

definition textNode :: "gostring \<Rightarrow> html_node" where
  "textNode s = Node TextNode atom_None s [] []"

definition element :: "atom \<Rightarrow> string \<Rightarrow> (gostring \<times> gostring) list \<Rightarrow> html_node list \<Rightarrow> html_node" where
  "element a tag at cs = Node ElementNode a (str tag) at cs"

definition cell :: "gostring \<Rightarrow> html_node" where
  "cell s = element (atom_Other 0) ''td'' [] [textNode s]"

definition tableRow :: "gostring list \<Rightarrow> html_node" where
  "tableRow ts = element atom_Tr ''tr'' [] (map cell ts)"

definition lectureRow :: html_node where
  "lectureRow = tableRow [str ''18aNMAI057x01'', str ''P'', str ''Linear Algebra'', str ''Novak'',
     str ''Po 08:00'', str ''S3'', str ''90'']"

definition lectureEvent :: event where
  "lectureEvent = \<lparr>Type = str ''P'', Name = str ''Linear Algebra'', Teacher = str ''Novak'',
     Day = 0, TimeFrom = clock 8 0, TimeTo = clock 9 30, WeekParity = 0\<rparr>"

definition continuationRow :: html_node where
  "continuationRow = tableRow [[], str ''P'', [], str ''Dvorak'',
     str ''St 10:40'', str ''S4'', str ''45 Sude tydny'']"

definition continuationEvent :: event where
  "continuationEvent = \<lparr>Type = str ''P'', Name = [], Teacher = str ''Dvorak'',
     Day = 2, TimeFrom = clock 10 40, TimeTo = clock 11 25, WeekParity = 2\<rparr>"

definition noteRow :: html_node where
  \<comment> \<open>a row whose teacher column is empty\<close>
  "noteRow = tableRow [[], [], str ''Note'', []]"

definition shortRow :: html_node where
  \<comment> \<open>three cells only\<close>
  "shortRow = tableRow [str ''a'', str ''b'', str ''c'']"

definition unscheduledRow :: html_node where
  \<comment> \<open>a teacher, but no duration column\<close>
  "unscheduledRow = tableRow [[], str ''P'', str ''Linear Algebra'', str ''Novak'',
     str ''Po 08:00'']"

definition centuriesRow :: html_node where
  \<comment> \<open>a duration whose count of nanoseconds does not fit 64 bits\<close>
  "centuriesRow = tableRow [[], str ''P'', str ''Linear Algebra'', str ''Novak'',
     str ''Po 08:00'', str ''S3'', str ''153722868'']"

definition landingPage :: html_node where
  "landingPage = Node DocumentNode atom_None [] []
     [element (atom_Other 1) ''p'' [] [textNode (str ''Linear Algebra'')],
      element atom_A ''a'' [(str ''href'', str ''/r'')] [textNode (str '' Rozvrh '')]]"

definition linklessPage :: html_node where
  "linklessPage = Node DocumentNode atom_None [] []
     [element atom_A ''a'' [(str ''href'', str ''/s'')] [textNode (str ''Sylabus'')]]"

definition errorPage :: html_node where
  \<comment> \<open>a schedule page with a message and no table\<close>
  "errorPage = Node DocumentNode atom_None [] []
     [element (atom_Other 1) ''p'' [] [textNode (str ''Chyba'')]]"

text \<open>
  A web of two pages: the landing page of every course and the page behind \<^verbatim>\<open>/r\<close>. A body
  is the document it parses to, a URL is its string, and resolution returns the reference.
\<close>

definition sampleWeb :: "html_node \<Rightarrow> html_node \<Rightarrow> (html_node, gostring) collaborators" where
  "sampleWeb landing schedule =
     \<lparr>http_Get = (\<lambda>u. if u = str ''/r'' then Inr schedule else Inr landing),
      html_Parse = Inr, url_Parse = Inr, url_ResolveReference = (\<lambda>base reference. reference)\<rparr>"

section \<open>Facts about the library functions\<close>

lemma days_values:
  "days = [[80, 111], [218, 116], [83, 116], [268, 116], [80, 225]]"
  by (simp add: days_def str_def)

lemma fieldsFrom_word:
  "\<forall>c\<in>set w. \<not> isSpace c \<Longrightarrow> fieldsFrom cur (w @ rest) = fieldsFrom (cur @ w) rest"
  by (induction w arbitrary: cur) simp_all

lemma Fields_first:
  assumes "w \<noteq> []" "\<forall>c\<in>set w. \<not> isSpace c" "isSpace s"
  shows "Fields (w @ s # rest) = w # Fields rest"
  unfolding Fields_def using assms by (simp add: fieldsFrom_word)

lemma Atoi_240: "Atoi (str ''240'') = Some 240"
  by (simp add: Atoi_def str_def isDigit_def)

lemma minutes_exact:
  assumes "- 153722867 \<le> d" "d \<le> 153722867"
  shows "minutes d = d * nanosPerMinute"
proof -
  have "- (2 ^ 63) \<le> 60000000000 * d" "60000000000 * d < 2 ^ 63"
    using assms by simp_all
  then have "signed_take_bit 63 (60000000000 * d) = 60000000000 * d"
    by (simp add: signed_take_bit_int_eq_self)
  moreover have "(word_of_int 60000000000 :: 64 word) * word_of_int d =
      word_of_int (60000000000 * d)"
    by simp
  ultimately have "sint ((word_of_int 60000000000 :: 64 word) * word_of_int d) =
      60000000000 * d"
    by (simp only: sint_sbintrunc') simp
  then show ?thesis
    by (simp add: minutes_def nanosPerMinute_def)
qed

section \<open>Facts about the row parser and the loop of the grouper\<close>

lemma addEventScheduling_Inr:
  assumes "addEventScheduling e daytime dur = Inr e'"
  obtains day timeFrom d parity where
    "parseDay (take 2 daytime) = Inr day" "time_Parse (drop 3 daytime) = Some timeFrom"
    "parseDurationAndWeekParity dur = Inr (d, parity)"
    "e' = e\<lparr>Day := day, TimeFrom := timeFrom, TimeTo := Add timeFrom (minutes d),
       WeekParity := parity\<rparr>"
  using assms
  by (auto simp add: addEventScheduling_def split: if_splits sum.splits option.splits)

lemma parseEvent_Inr:
  assumes "parseEvent row = Inr e" "e \<noteq> emptyEvent"
  shows "6 < length (cols row) \<and> cols row ! 3 \<noteq> [] \<and>
     addEventScheduling (emptyEvent\<lparr>Type := cols row ! 1, Name := cols row ! 2,
        Teacher := cols row ! 3\<rparr>) (cols row ! 4) (cols row ! 6) = Inr e"
  using assms
  by (auto simp add: parseEvent_def index_def split: if_splits sum.splits)

lemma groupRows_append:
  "groupRows (as @ bs) s = (case groupRows as s of Inl f \<Rightarrow> Inl f | Inr s' \<Rightarrow> groupRows bs s')"
proof (induction as arbitrary: s)
  case Nil
  show ?case by simp
next
  case (Cons r as)
  obtain res grp where s: "s = (res, grp)" by (cases s)
  show ?case
    unfolding s by (simp add: Cons.IH split: sum.splits)
qed

lemma groupRows_skip:
  "parseEvent r = Inr emptyEvent \<Longrightarrow> groupRows (r # rows) s = groupRows rows s"
  by (cases s) simp

lemma groupRows_run:
  assumes "\<forall>r\<in>set rs. \<exists>e. parseEvent r = Inr e \<and> Name e = []"
  shows "groupRows rs (res, g0 # grp) =
     Inr (res, (g0 # grp) @
       map (\<lambda>r. (projr (parseEvent r))\<lparr>Name := Name g0, Teacher := Teacher g0\<rparr>)
         (filter (\<lambda>r. parseEvent r \<noteq> Inr emptyEvent) rs))"
  using assms
proof (induction rs arbitrary: grp)
  case Nil
  show ?case by simp
next
  case (Cons r rs)
  then obtain e where e: "parseEvent r = Inr e" "Name e = []" by auto
  have rest: "\<forall>r\<in>set rs. \<exists>e. parseEvent r = Inr e \<and> Name e = []"
    using Cons.prems by simp
  show ?case
  proof (cases "e = emptyEvent")
    case True
    then show ?thesis using e Cons.IH [OF rest, of grp] by simp
  next
    case False
    then show ?thesis
      using e Cons.IH [OF rest, of "grp @ [e\<lparr>Name := Name g0, Teacher := Teacher g0\<rparr>]"]
      by (simp add: index_def)
  qed
qed

lemma groupRows_acc:
  "groupRows rows (res, grp) = Inr (res', grp') \<Longrightarrow>
   (grp' \<noteq> [] \<longleftrightarrow> grp \<noteq> [] \<or> (\<exists>r\<in>set rows. isGroupStart r))"
proof (induction rows arbitrary: res grp)
  case Nil
  then show ?case by simp
next
  case (Cons r rows)
  from Cons.prems obtain e where e: "parseEvent r = Inr e"
    by (auto split: sum.splits)
  consider (skip) "e = emptyEvent" | (start) "e \<noteq> emptyEvent" "Name e \<noteq> []"
    | (cont) "e \<noteq> emptyEvent" "Name e = []" by blast
  then show ?case
  proof cases
    case skip
    then have "groupRows rows (res, grp) = Inr (res', grp')" using Cons.prems e by simp
    from Cons.IH [OF this] show ?thesis using skip e by (simp add: isGroupStart_def)
  next
    case start
    then have "groupRows rows (flush res grp, [e]) = Inr (res', grp')" using Cons.prems e by simp
    from Cons.IH [OF this] show ?thesis using start e by (simp add: isGroupStart_def)
  next
    case cont
    then obtain g0 where g0: "index grp 0 = Inr g0"
      and run: "groupRows rows (res, grp @ [e\<lparr>Name := Name g0, Teacher := Teacher g0\<rparr>]) =
        Inr (res', grp')"
      using Cons.prems e by (auto split: sum.splits)
    from g0 have "grp \<noteq> []" by (auto simp add: index_def split: if_splits)
    with Cons.IH [OF run] show ?thesis by simp
  qed
qed

lemma groupRows_succeeds:
  assumes "\<forall>r\<in>set rows. \<exists>e. parseEvent r = Inr e"
      and "\<forall>i<length rows. isContinuation (rows ! i) \<longrightarrow>
             grp \<noteq> [] \<or> (\<exists>j<i. isGroupStart (rows ! j))"
  shows "\<exists>s'. groupRows rows (res, grp) = Inr s'"
  using assms
proof (induction rows arbitrary: res grp)
  case Nil
  show ?case by simp
next
  case (Cons r rows)
  then obtain e where e: "parseEvent r = Inr e" by auto
  have parses: "\<forall>r\<in>set rows. \<exists>e. parseEvent r = Inr e" using Cons.prems(1) by simp
  have later: "grp \<noteq> [] \<or> isGroupStart r \<or> (\<exists>j<i. isGroupStart (rows ! j))"
    if "i < length rows" "isContinuation (rows ! i)" for i
  proof -
    from Cons.prems(2) [rule_format, of "Suc i"] that
    have "grp \<noteq> [] \<or> (\<exists>j<Suc i. isGroupStart ((r # rows) ! j))" by simp
    then show ?thesis
      by (auto simp add: less_Suc_eq_0_disj)
  qed
  consider (skip) "e = emptyEvent" | (start) "e \<noteq> emptyEvent" "Name e \<noteq> []"
    | (cont) "e \<noteq> emptyEvent" "Name e = []" by blast
  then show ?case
  proof cases
    case skip
    then have "\<not> isGroupStart r" using e by (simp add: isGroupStart_def)
    with later have "\<forall>i<length rows. isContinuation (rows ! i) \<longrightarrow>
        grp \<noteq> [] \<or> (\<exists>j<i. isGroupStart (rows ! j))" by blast
    from Cons.IH [OF parses this, of res] show ?thesis using skip e by simp
  next
    case start
    have "\<forall>i<length rows. isContinuation (rows ! i) \<longrightarrow>
        [e] \<noteq> [] \<or> (\<exists>j<i. isGroupStart (rows ! j))" by simp
    from Cons.IH [OF parses this, of "flush res grp"] show ?thesis using start e by simp
  next
    case cont
    then have c: "isContinuation ((r # rows) ! 0)" using e by (simp add: isContinuation_def)
    from Cons.prems(2) [rule_format, of 0] c have "grp \<noteq> []" by simp
    then obtain g0 gs where grp: "grp = g0 # gs" by (cases grp) auto
    have "\<forall>i<length rows. isContinuation (rows ! i) \<longrightarrow>
        grp @ [e\<lparr>Name := Name g0, Teacher := Teacher g0\<rparr>] \<noteq> [] \<or>
        (\<exists>j<i. isGroupStart (rows ! j))" by simp
    from Cons.IH [OF parses this, of res] show ?thesis
      using cont e grp by (simp add: index_def)
  qed
qed

lemma groupRows_fails:
  assumes "\<forall>r\<in>set rows. \<exists>e. parseEvent r = Inr e"
      and "i < length rows" "isContinuation (rows ! i)" "\<forall>j<i. \<not> isGroupStart (rows ! j)"
  shows "groupRows rows (res, []) = Inl (PanicIndexOutOfRange 0 0)"
  using assms
proof (induction rows arbitrary: i)
  case Nil
  then show ?case by simp
next
  case (Cons r rows)
  then obtain e where e: "parseEvent r = Inr e" by auto
  show ?case
  proof (cases i)
    case 0
    with Cons.prems(3) e show ?thesis
      by (simp add: isContinuation_def index_def)
  next
    case (Suc k)
    from Cons.prems(4) Suc have nostart: "\<not> isGroupStart r" by auto
    have parses: "\<forall>r\<in>set rows. \<exists>e. parseEvent r = Inr e" using Cons.prems(1) by simp
    have k: "k < length rows" "isContinuation (rows ! k)" "\<forall>j<k. \<not> isGroupStart (rows ! j)"
      using Cons.prems(2,3,4) Suc by auto
    from nostart e have "e = emptyEvent \<or> Name e = []" by (auto simp add: isGroupStart_def)
    then show ?thesis
      using e Cons.IH [OF parses k] by (auto simp add: index_def)
  qed
qed

section \<open>Facts about the document queries\<close>

lemma Find_None:
  "(Find m n = None \<longleftrightarrow> (\<forall>x\<in>set (subnodes n). \<not> m x))"
  "(FindIn m cs = None \<longleftrightarrow> (\<forall>c\<in>set cs. \<forall>x\<in>set (subnodes c). \<not> m x))"
  by (induction m n and m cs rule: Find_FindIn.induct) (auto split: option.splits)

lemma FindAll_Nil:
  "FindAll m anc n = [] \<longleftrightarrow> (\<forall>x\<in>set (nodes anc n). \<not> m (fst x) (snd x))"
  by (induction m anc n rule: FindAll.induct) auto

section \<open>The sample rows\<close>

lemma scrape_Text_cell: "scrape_Text (cell s) = TrimSpace s"
  by (simp add: scrape_Text_def cell_def element_def textNode_def)

lemma cols_tableRow: "cols (tableRow ts) = map TrimSpace ts"
proof -
  have "filter (\<lambda>col. length (TrimSpace (Data col)) > 0) (map cell ts) = map cell ts"
    by (induction ts) (simp_all add: cell_def element_def str_def TrimSpace_def isSpace_def)
  then show ?thesis
    by (simp add: cols_def tableRow_def element_def scrape_Text_cell)
qed

lemmas decode_defs =
  index_def TrimSpace_def str_def isSpace_def addEventScheduling_def parseDay_def days_def
  isDigit_def digit_def parseDurationAndWeekParity_def Fields_def Atoi_def oddMarker_def

lemma parseEvent_lectureRow: "parseEvent lectureRow = Inr lectureEvent"
  by (simp add: parseEvent_def lectureRow_def lectureEvent_def cols_tableRow decode_defs
      emptyEvent_def Add_def minutes_def clock_def nanosPerMinute_def)

lemma parseEvent_continuationRow: "parseEvent continuationRow = Inr continuationEvent"
  by (simp add: parseEvent_def continuationRow_def continuationEvent_def cols_tableRow
      decode_defs emptyEvent_def Add_def minutes_def clock_def nanosPerMinute_def)

lemma parseEvent_noteRow: "parseEvent noteRow = Inr emptyEvent"
  by (simp add: parseEvent_def noteRow_def cols_tableRow decode_defs)

lemma sample_events_distinct:
  "lectureEvent \<noteq> emptyEvent" "continuationEvent \<noteq> emptyEvent"
  "Name lectureEvent \<noteq> []" "Name continuationEvent = []"
  "Teacher lectureEvent \<noteq> []"
  by (simp_all add: lectureEvent_def continuationEvent_def emptyEvent_def str_def)

section \<open>The table grouper on one run of rows\<close>

text \<open>
  C1: a run is a row with a name and a teacher followed by rows without a name. From any
  state of the loop the run closes the group before it and leaves exactly one group, made
  of the first event and of the events of the rows that are not skipped, each with the name
  and the teacher of the first event; a table that is this run yields that one group; and
  the next row with a name closes the group as it stands.
\<close>

theorem run_is_one_group:
  fixes start :: html_node and conts :: "html_node list" and ev :: event
  defines "members \<equiv> ev # map (\<lambda>r. (projr (parseEvent r))\<lparr>Name := Name ev, Teacher := Teacher ev\<rparr>)
      (filter (\<lambda>r. parseEvent r \<noteq> Inr emptyEvent) conts)"
  assumes start: "parseEvent start = Inr ev" "Name ev \<noteq> []" "Teacher ev \<noteq> []"
      and conts: "\<forall>r\<in>set conts. \<exists>e. parseEvent r = Inr e \<and> Name e = []"
  shows "groupRows (start # conts) (res, grp) = Inr (flush res grp, members) \<and>
     groupTable (start # conts) = Inr [members] \<and>
     (\<forall>m\<in>set members. Name m = Name ev \<and> Teacher m = Teacher ev) \<and>
     (\<forall>e. parseEvent nxt = Inr e \<and> Name e \<noteq> [] \<and> Teacher e \<noteq> [] \<longrightarrow>
        groupRows (start # conts @ nxt # post) (res, grp) =
          groupRows post (flush res grp @ [members], [e]))"
proof -
  have ne: "ev \<noteq> emptyEvent" using start(3) by (auto simp add: emptyEvent_def)
  have run: "groupRows (start # conts) (r, g) = Inr (flush r g, members)" for r g
    using start(1,2) ne groupRows_run [OF conts, of "flush r g" ev "[]"]
    by (simp add: members_def)
  have table: "groupTable (start # conts) = Inr [members]"
    using run [of "[]" "[]"] by (simp add: groupTable_def flush_def members_def)
  have same: "\<forall>m\<in>set members. Name m = Name ev \<and> Teacher m = Teacher ev"
    by (auto simp add: members_def)
  have nxt: "groupRows (start # conts @ nxt # post) (res, grp) =
      groupRows post (flush res grp @ [members], [e])"
    if "parseEvent nxt = Inr e" "Name e \<noteq> []" "Teacher e \<noteq> []" for e
  proof -
    have "e \<noteq> emptyEvent" using that(3) by (auto simp add: emptyEvent_def)
    moreover have "groupRows (start # conts @ nxt # post) (res, grp) =
        groupRows (nxt # post) (flush res grp, members)"
      using groupRows_append [of "start # conts" "nxt # post" "(res, grp)"] run [of res grp]
      by simp
    ultimately show ?thesis
      using that(1,2) by (simp add: flush_def members_def)
  qed
  from run table same nxt show ?thesis by blast
qed

theorem run_is_one_group_witness:
  "parseEvent lectureRow = Inr lectureEvent \<and> Name lectureEvent \<noteq> [] \<and>
   Teacher lectureEvent \<noteq> [] \<and>
   parseEvent continuationRow = Inr continuationEvent \<and> Name continuationEvent = [] \<and>
   parseEvent noteRow = Inr emptyEvent \<and>
   groupTable [lectureRow, continuationRow, noteRow] =
     Inr [[lectureEvent,
           continuationEvent\<lparr>Name := Name lectureEvent, Teacher := Teacher lectureEvent\<rparr>]]"
proof -
  have conts: "\<forall>r\<in>set [continuationRow, noteRow]. \<exists>e. parseEvent r = Inr e \<and> Name e = []"
    by (simp add: parseEvent_continuationRow parseEvent_noteRow sample_events_distinct
        emptyEvent_def)
  show ?thesis
    using run_is_one_group [OF parseEvent_lectureRow sample_events_distinct(3)
        sample_events_distinct(5) conts]
    by (simp add: parseEvent_lectureRow parseEvent_continuationRow parseEvent_noteRow
        sample_events_distinct)
qed

section \<open>Duration and week parity\<close>

text \<open>
  C2: the token is split into its fields. With no field the decoder fails; when the first
  field is not an integer it fails with the duration panic; otherwise it returns that
  integer with parity 0 when there is no second field, 1 when the second field is the
  odd-weeks marker, and 2 for any other second field. So ``90'' gives (90, 0), ``240'',
  the marker and more gives (240, 1), and ``240'', any other word and more gives (240, 2).
\<close>

theorem parseDurationAndWeekParity_spec:
  "(Fields dur = [] \<longrightarrow> parseDurationAndWeekParity dur = Inl (PanicIndexOutOfRange 0 0)) \<and>
   (\<forall>w0 rest. Fields dur = w0 # rest \<longrightarrow>
      (Atoi w0 = None \<longrightarrow>
         parseDurationAndWeekParity dur = Inl (PanicUnableToParseDuration w0)) \<and>
      (\<forall>d. Atoi w0 = Some d \<longrightarrow>
         parseDurationAndWeekParity dur =
           Inr (d, if rest = [] then 0 else if hd rest = oddMarker then 1 else 2))) \<and>
   parseDurationAndWeekParity (str ''90'') = Inr (90, 0) \<and>
   (isSpace s \<longrightarrow>
      parseDurationAndWeekParity (str ''240 '' @ oddMarker @ s # trail) = Inr (240, 1)) \<and>
   (isSpace s \<and> w \<noteq> [] \<and> (\<forall>c\<in>set w. \<not> isSpace c) \<and> w \<noteq> oddMarker \<longrightarrow>
      parseDurationAndWeekParity (str ''240 '' @ w @ s # trail) = Inr (240, 2))"
proof -
  have cases: "parseDurationAndWeekParity x =
     (case Fields x of
        [] \<Rightarrow> Inl (PanicIndexOutOfRange 0 0)
      | w0 # rest \<Rightarrow>
          (case Atoi w0 of
             None \<Rightarrow> Inl (PanicUnableToParseDuration w0)
           | Some d \<Rightarrow>
               Inr (d, if rest = [] then 0 else if hd rest = oddMarker then 1 else 2)))" for x
    by (auto simp add: parseDurationAndWeekParity_def index_def Let_def hd_conv_nth
        split: list.splits option.splits)
  have ninety: "parseDurationAndWeekParity (str ''90'') = Inr (90, 0)"
    by (simp add: decode_defs)
  have two: "Fields (str ''240 '' @ v @ s # trail) = str ''240'' # v # Fields trail"
    if "isSpace s" "v \<noteq> []" "\<forall>c\<in>set v. \<not> isSpace c" for v
  proof -
    have "Fields (str ''240'' @ 32 # v @ s # trail) = str ''240'' # Fields (v @ s # trail)"
      by (rule Fields_first) (simp_all add: str_def isSpace_def)
    moreover have "str ''240 '' = str ''240'' @ [32]" by (simp add: str_def)
    ultimately show ?thesis using that by (simp add: Fields_first)
  qed
  have odd: "parseDurationAndWeekParity (str ''240 '' @ oddMarker @ s # trail) = Inr (240, 1)"
    if "isSpace s"
  proof -
    have "oddMarker \<noteq> []" "\<forall>c\<in>set oddMarker. \<not> isSpace c"
      by (simp_all add: oddMarker_def str_def isSpace_def)
    from two [OF that this] show ?thesis by (simp add: cases Atoi_240)
  qed
  have even: "parseDurationAndWeekParity (str ''240 '' @ w @ s # trail) = Inr (240, 2)"
    if "isSpace s" "w \<noteq> []" "\<forall>c\<in>set w. \<not> isSpace c" "w \<noteq> oddMarker"
    using two [OF that(1,2,3)] that(4) by (simp add: cases Atoi_240)
  show ?thesis
    using ninety odd even by (auto simp add: cases)
qed

theorem parseDurationAndWeekParity_spec_witness:
  "Fields (str ''45 Sude tydny'') = [str ''45'', str ''Sude'', str ''tydny''] \<and>
   Atoi (str ''45'') = Some 45 \<and>
   parseDurationAndWeekParity (str ''45 Sude tydny'') = Inr (45, 2) \<and>
   isSpace 32 \<and> str ''Sude'' \<noteq> oddMarker \<and>
   parseDurationAndWeekParity (str ''240 '' @ str ''Sude'' @ 32 # str ''tydny'') = Inr (240, 2) \<and>
   parseDurationAndWeekParity (str ''240 '' @ oddMarker @ 32 # str ''tydny'') = Inr (240, 1)"
proof -
  have f: "Fields (str ''45 Sude tydny'') = [str ''45'', str ''Sude'', str ''tydny'']"
    by (simp add: Fields_def str_def isSpace_def)
  have a: "Atoi (str ''45'') = Some 45"
    by (simp add: Atoi_def str_def isDigit_def)
  have h: "isSpace 32" "str ''Sude'' \<noteq> []" "\<forall>c\<in>set (str ''Sude''). \<not> isSpace c"
    "str ''Sude'' \<noteq> oddMarker"
    by (simp_all add: isSpace_def str_def oddMarker_def)
  from parseDurationAndWeekParity_spec
    [of "str ''45 Sude tydny''" 32 "str ''tydny''" "str ''Sude''"] f a h
  show ?thesis by simp
qed

section \<open>Day decoding\<close>

text \<open>
  C3: \<open>parseDay\<close> maps the five day abbreviations, in the order of the source, to 0, 1, 2, 3
  and 4, and on every other token it fails with the unknown-day panic and returns no index.
\<close>

theorem parseDay_spec:
  "days = [str ''Po'', [218, 116], str ''St'', [268, 116], [80, 225]] \<and>
   parseDay (str ''Po'') = Inr 0 \<and> parseDay [218, 116] = Inr 1 \<and>
   parseDay (str ''St'') = Inr 2 \<and> parseDay [268, 116] = Inr 3 \<and>
   parseDay [80, 225] = Inr 4 \<and>
   (day \<notin> set days \<longrightarrow> parseDay day = Inl (PanicUnknownDay day))"
  by (auto simp add: parseDay_def days_values str_def)

theorem parseDay_spec_witness:
  "str ''So'' \<notin> set days \<and> parseDay (str ''So'') = Inl (PanicUnknownDay (str ''So''))"
  using parseDay_spec [of "str ''So''"] by (simp add: days_values str_def)

section \<open>Rows with an empty teacher column\<close>

text \<open>
  C4: for a row whose column 3 (the teacher) is empty, \<open>parseEvent\<close> returns the empty
  event, and the loop and the table grouper give the same result with the row and without
  it, wherever it stands and in whatever state the loop is.
\<close>

theorem empty_teacher_row_skipped:
  assumes "3 < length (cols row)" "cols row ! 3 = []"
  shows "parseEvent row = Inr emptyEvent \<and>
     groupRows (before @ row # after) s = groupRows (before @ after) s \<and>
     groupTable (before @ row # after) = groupTable (before @ after)"
proof -
  have sentinel: "parseEvent row = Inr emptyEvent"
    using assms by (simp add: parseEvent_def index_def)
  have loop: "groupRows (before @ row # after) t = groupRows (before @ after) t" for t
    by (simp add: groupRows_append groupRows_skip [OF sentinel] split: sum.splits)
  have "groupTable (before @ row # after) = groupTable (before @ after)"
  proof (cases "before @ after = []")
    case True
    then show ?thesis
      using sentinel by (simp add: groupTable_def flush_def)
  next
    case False
    then show ?thesis
      using loop [of "([], [])"] by (auto simp add: groupTable_def)
  qed
  with sentinel loop show ?thesis by simp
qed

theorem empty_teacher_row_skipped_witness:
  "3 < length (cols noteRow) \<and> cols noteRow ! 3 = [] \<and> parseEvent noteRow = Inr emptyEvent \<and>
   groupTable ([lectureRow] @ noteRow # [continuationRow]) =
     groupTable ([lectureRow] @ [continuationRow]) \<and>
   groupTable ([lectureRow] @ [continuationRow]) =
     Inr [[lectureEvent,
           continuationEvent\<lparr>Name := Name lectureEvent, Teacher := Teacher lectureEvent\<rparr>]]"
proof -
  have c: "3 < length (cols noteRow)" "cols noteRow ! 3 = []"
    by (simp_all add: noteRow_def cols_tableRow TrimSpace_def)
  have g: "groupTable ([lectureRow] @ [continuationRow]) =
     Inr [[lectureEvent,
           continuationEvent\<lparr>Name := Name lectureEvent, Teacher := Teacher lectureEvent\<rparr>]]"
    by (simp add: groupTable_def parseEvent_lectureRow parseEvent_continuationRow
        sample_events_distinct flush_def index_def)
  from empty_teacher_row_skipped [OF c, of "[lectureRow]" "[continuationRow]" "([], [])"] c g
  show ?thesis by simp
qed

section \<open>A schedule page without a table\<close>

text \<open>
  C5: when both fetches succeed, the schedule link is found and resolved, and no node of
  the schedule page is a row of the event table, the retrieval returns the empty sequence of
  groups and no failure; it has sent its two requests.
\<close>

theorem no_table_no_groups:
  assumes "http_Get c (landingUrl courseCode) = Inr body1"
      and "getRelativeScheduleUrl c body1 = Inr relative"
      and "getAbsoluteUrl c sisUrl relative = Inr scheduleUrl"
      and "http_Get c scheduleUrl = Inr body2"
      and "html_Parse c body2 = Inr root"
      and "\<forall>x\<in>set (nodes [] root). \<not> rowMatcher (fst x) (snd x)"
  shows "parseCourseEvents c body2 = Inr [] \<and>
     GetCourseEvents c courseCode =
       (Inr [], [HttpGet (landingUrl courseCode), HttpGet scheduleUrl])"
proof -
  have "eventsTable root = []"
    using assms(6) by (simp add: eventsTable_def FindAll_Nil)
  then have "parseCourseEvents c body2 = Inr []"
    using assms(5) by (simp add: parseCourseEvents_def groupTable_def)
  then show ?thesis
    using assms(1-4) by (simp add: GetCourseEvents_def)
qed

lemma landingUrl_not_r: "landingUrl courseCode \<noteq> str ''/r''"
  by (simp add: landingUrl_def sisUrlPrefix_def str_def)

lemma landingPage_link:
  "getRelativeScheduleUrl (sampleWeb landingPage schedule) landingPage = Inr (str ''/r'')"
  by (simp add: getRelativeScheduleUrl_def sampleWeb_def landingPage_def element_def
      textNode_def linkMatcher_def scrape_Text_def scrape_Attr_def scheduleLinkText_def
      TrimSpace_def isSpace_def str_def)

theorem no_table_no_groups_witness:
  "http_Get (sampleWeb landingPage errorPage) (landingUrl (str ''NMAI057'')) = Inr landingPage \<and>
   http_Get (sampleWeb landingPage errorPage) (str ''/r'') = Inr errorPage \<and>
   eventsTable errorPage = [] \<and>
   GetCourseEvents (sampleWeb landingPage errorPage) (str ''NMAI057'') =
     (Inr [], [HttpGet (landingUrl (str ''NMAI057'')), HttpGet (str ''/r'')])"
proof -
  let ?c = "sampleWeb landingPage errorPage"
  have g1: "http_Get ?c (landingUrl (str ''NMAI057'')) = Inr landingPage"
    using landingUrl_not_r by (simp add: sampleWeb_def)
  have ab: "getAbsoluteUrl ?c sisUrl (str ''/r'') = Inr (str ''/r'')"
    by (simp add: getAbsoluteUrl_def sampleWeb_def)
  have g2: "http_Get ?c (str ''/r'') = Inr errorPage"
    by (simp add: sampleWeb_def)
  have p: "html_Parse ?c errorPage = Inr errorPage"
    by (simp add: sampleWeb_def)
  have none: "\<forall>x\<in>set (nodes [] errorPage). \<not> rowMatcher (fst x) (snd x)"
    by (simp add: errorPage_def element_def textNode_def rowMatcher_def)
  have "eventsTable errorPage = []"
    using none by (simp add: eventsTable_def FindAll_Nil)
  with no_table_no_groups [OF g1 landingPage_link ab g2 p none] g1 g2
  show ?thesis by simp
qed

section \<open>The end time\<close>

text \<open>
  C6, as the code has it: the end time of a parsed event is the start time plus the
  decoded count of minutes as a 64-bit count of nanoseconds. For a count of at most
  153722867 minutes in absolute value that is the start time plus the duration; a start
  of 08:00 and 90 minutes end at 09:30.
\<close>

theorem TimeTo_is_TimeFrom_plus_duration:
  assumes "parseEvent row = Inr e" "e \<noteq> emptyEvent"
  shows "\<exists>d parity. parseDurationAndWeekParity (cols row ! 6) = Inr (d, parity) \<and>
      time_Parse (drop 3 (cols row ! 4)) = Some (TimeFrom e) \<and>
      TimeTo e = Add (TimeFrom e) (minutes d) \<and>
      (- 153722867 \<le> d \<and> d \<le> 153722867 \<longrightarrow> TimeTo e = TimeFrom e + d * nanosPerMinute) \<and>
      time_Parse (str ''08:00'') = Some (clock 8 0) \<and>
      Add (clock 8 0) (minutes 90) = clock 9 30"
proof -
  from parseEvent_Inr [OF assms]
  have "addEventScheduling (emptyEvent\<lparr>Type := cols row ! 1, Name := cols row ! 2,
        Teacher := cols row ! 3\<rparr>) (cols row ! 4) (cols row ! 6) = Inr e"
    by simp
  then obtain day timeFrom d parity where
    dur: "parseDurationAndWeekParity (cols row ! 6) = Inr (d, parity)" and
    tf: "time_Parse (drop 3 (cols row ! 4)) = Some timeFrom" and
    e: "e = emptyEvent\<lparr>Type := cols row ! 1, Name := cols row ! 2, Teacher := cols row ! 3,
       Day := day, TimeFrom := timeFrom, TimeTo := Add timeFrom (minutes d),
       WeekParity := parity\<rparr>"
    by (rule addEventScheduling_Inr) simp
  have "TimeTo e = TimeFrom e + d * nanosPerMinute" if "- 153722867 \<le> d" "d \<le> 153722867"
    using e minutes_exact [OF that] by (simp add: Add_def)
  moreover have "time_Parse (str ''08:00'') = Some (clock 8 0)"
    by (simp add: str_def isDigit_def digit_def)
  moreover have "Add (clock 8 0) (minutes 90) = clock 9 30"
    by (simp add: Add_def clock_def minutes_exact nanosPerMinute_def)
  ultimately show ?thesis
    using dur tf e by auto
qed

theorem TimeTo_is_TimeFrom_plus_duration_witness:
  "parseEvent lectureRow = Inr lectureEvent \<and> lectureEvent \<noteq> emptyEvent \<and>
   parseDurationAndWeekParity (cols lectureRow ! 6) = Inr (90, 0) \<and>
   TimeFrom lectureEvent = clock 8 0 \<and>
   TimeTo lectureEvent = TimeFrom lectureEvent + 90 * nanosPerMinute"
proof -
  have d: "parseDurationAndWeekParity (cols lectureRow ! 6) = Inr (90, 0)"
    by (simp add: lectureRow_def cols_tableRow decode_defs)
  from TimeTo_is_TimeFrom_plus_duration [OF parseEvent_lectureRow sample_events_distinct(1)]
  obtain k parity where
    k: "parseDurationAndWeekParity (cols lectureRow ! 6) = Inr (k, parity)" and
    exact: "- 153722867 \<le> k \<and> k \<le> 153722867 \<longrightarrow>
      TimeTo lectureEvent = TimeFrom lectureEvent + k * nanosPerMinute"
    by blast
  from k d have "k = 90" by simp
  with exact have "TimeTo lectureEvent = TimeFrom lectureEvent + 90 * nanosPerMinute"
    by simp
  moreover have "TimeFrom lectureEvent = clock 8 0"
    by (simp add: lectureEvent_def)
  ultimately show ?thesis
    using d parseEvent_lectureRow sample_events_distinct(1) by simp
qed

text \<open>
  The claim as stated fails on a duration of 153722868 minutes: the row parses, and the
  end time lies before the start time.
\<close>

theorem TimeTo_wraps_counterexample:
  "parseEvent centuriesRow =
     Inr \<lparr>Type = str ''P'', Name = str ''Linear Algebra'', Teacher = str ''Novak'', Day = 0,
          TimeFrom = clock 8 0, TimeTo = clock 8 0 - 9223371993709551616, WeekParity = 0\<rparr> \<and>
   parseDurationAndWeekParity (cols centuriesRow ! 6) = Inr (153722868, 0) \<and>
   clock 8 0 - 9223371993709551616 \<noteq> clock 8 0 + 153722868 * nanosPerMinute"
  by (simp add: parseEvent_def centuriesRow_def cols_tableRow decode_defs
      emptyEvent_def Add_def minutes_def clock_def nanosPerMinute_def)

section \<open>The accumulator at a continuation row\<close>

text \<open>
  C7: when every continuation row has a group-start row before it, the accumulator is not
  empty whenever the loop reaches a continuation row, so the read of its first element is
  in bounds; and for rows that all parse, the grouper returns groups under that
  precondition and panics with an index out of range at 0 without it.
\<close>

theorem accumulator_nonempty_at_continuation:
  "(continuationsPreceded rows \<longrightarrow>
      (\<forall>i<length rows. isContinuation (rows ! i) \<longrightarrow>
         (\<forall>res grp. groupRows (take i rows) ([], []) = Inr (res, grp) \<longrightarrow>
            grp \<noteq> [] \<and> index grp 0 = Inr (hd grp)))) \<and>
   ((\<forall>r\<in>set rows. \<exists>e. parseEvent r = Inr e) \<longrightarrow>
      (continuationsPreceded rows \<longrightarrow> (\<exists>groups. groupTable rows = Inr groups)) \<and>
      (\<not> continuationsPreceded rows \<longrightarrow> groupTable rows = Inl (PanicIndexOutOfRange 0 0)))"
proof -
  have inbounds: "grp \<noteq> [] \<and> index grp 0 = Inr (hd grp)"
    if pre: "continuationsPreceded rows" and i: "i < length rows" "isContinuation (rows ! i)"
      and run: "groupRows (take i rows) ([], []) = Inr (res, grp)" for i res grp
  proof -
    from pre i obtain j where j: "j < i" "isGroupStart (rows ! j)"
      by (auto simp add: continuationsPreceded_def)
    then have "rows ! j \<in> set (take i rows)"
      using i(1) by (auto simp add: in_set_conv_nth)
    with j(2) groupRows_acc [OF run] have "grp \<noteq> []" by blast
    then show ?thesis by (simp add: index_def hd_conv_nth)
  qed
  have succeeds: "\<exists>groups. groupTable rows = Inr groups"
    if parses: "\<forall>r\<in>set rows. \<exists>e. parseEvent r = Inr e" and pre: "continuationsPreceded rows"
  proof -
    have "\<forall>i<length rows. isContinuation (rows ! i) \<longrightarrow>
        ([]::event list) \<noteq> [] \<or> (\<exists>j<i. isGroupStart (rows ! j))"
      using pre by (simp add: continuationsPreceded_def)
    from groupRows_succeeds [OF parses this, of "[]"]
    show ?thesis by (auto simp add: groupTable_def)
  qed
  have fails: "groupTable rows = Inl (PanicIndexOutOfRange 0 0)"
    if parses: "\<forall>r\<in>set rows. \<exists>e. parseEvent r = Inr e" and pre: "\<not> continuationsPreceded rows"
  proof -
    from pre obtain i where i: "i < length rows" "isContinuation (rows ! i)"
      "\<forall>j<i. \<not> isGroupStart (rows ! j)"
      by (auto simp add: continuationsPreceded_def)
    from groupRows_fails [OF parses i, of "[]"] i(1)
    show ?thesis by (auto simp add: groupTable_def)
  qed
  from inbounds succeeds fails show ?thesis by blast
qed

lemma sample_row_kinds:
  "isGroupStart lectureRow" "\<not> isContinuation lectureRow"
  "isContinuation continuationRow" "\<not> isGroupStart continuationRow"
  by (simp_all add: isGroupStart_def isContinuation_def parseEvent_lectureRow
      parseEvent_continuationRow sample_events_distinct)

theorem accumulator_nonempty_at_continuation_witness:
  "continuationsPreceded [lectureRow, continuationRow] \<and>
   isContinuation ([lectureRow, continuationRow] ! 1) \<and>
   groupRows (take 1 [lectureRow, continuationRow]) ([], []) = Inr ([], [lectureEvent]) \<and>
   index [lectureEvent] 0 = Inr lectureEvent \<and>
   groupTable [lectureRow, continuationRow] =
     Inr [[lectureEvent,
           continuationEvent\<lparr>Name := Name lectureEvent, Teacher := Teacher lectureEvent\<rparr>]] \<and>
   \<not> continuationsPreceded [continuationRow, lectureRow] \<and>
   groupTable [continuationRow, lectureRow] = Inl (PanicIndexOutOfRange 0 0)"
proof -
  have pre: "continuationsPreceded [lectureRow, continuationRow]"
    by (simp add: continuationsPreceded_def less_Suc_eq sample_row_kinds)
  have npre: "\<not> continuationsPreceded [continuationRow, lectureRow]"
    by (auto simp add: continuationsPreceded_def sample_row_kinds)
  have run: "groupRows (take 1 [lectureRow, continuationRow]) ([], []) = Inr ([], [lectureEvent])"
    by (simp add: parseEvent_lectureRow sample_events_distinct flush_def)
  have p1: "\<forall>r\<in>set [lectureRow, continuationRow]. \<exists>e. parseEvent r = Inr e"
    and p2: "\<forall>r\<in>set [continuationRow, lectureRow]. \<exists>e. parseEvent r = Inr e"
    by (simp_all add: parseEvent_lectureRow parseEvent_continuationRow)
  have g: "groupTable [lectureRow, continuationRow] =
     Inr [[lectureEvent,
           continuationEvent\<lparr>Name := Name lectureEvent, Teacher := Teacher lectureEvent\<rparr>]]"
    by (simp add: groupTable_def parseEvent_lectureRow parseEvent_continuationRow
        sample_events_distinct flush_def index_def)
  from accumulator_nonempty_at_continuation [of "[continuationRow, lectureRow]"] p2 npre
  have orphan: "groupTable [continuationRow, lectureRow] = Inl (PanicIndexOutOfRange 0 0)"
    by blast
  from accumulator_nonempty_at_continuation [of "[lectureRow, continuationRow]"] pre
  have every: "\<forall>i<length [lectureRow, continuationRow].
      isContinuation ([lectureRow, continuationRow] ! i) \<longrightarrow>
      (\<forall>res grp. groupRows (take i [lectureRow, continuationRow]) ([], []) = Inr (res, grp) \<longrightarrow>
         grp \<noteq> [] \<and> index grp 0 = Inr (hd grp))"
    by blast
  have "1 < length [lectureRow, continuationRow]" by simp
  with every have at1: "isContinuation ([lectureRow, continuationRow] ! 1) \<longrightarrow>
      (\<forall>res grp. groupRows (take 1 [lectureRow, continuationRow]) ([], []) = Inr (res, grp) \<longrightarrow>
         grp \<noteq> [] \<and> index grp 0 = Inr (hd grp))"
    by blast
  have c: "isContinuation ([lectureRow, continuationRow] ! 1)"
    by (simp add: sample_row_kinds)
  from at1 c run have "index [lectureEvent] 0 = Inr (hd [lectureEvent])"
    by blast
  then show ?thesis
    using pre npre run g c orphan by simp
qed

section \<open>A landing page without the schedule link\<close>

text \<open>
  C8: when the landing page is fetched and parsed and none of its nodes is a hyperlink
  whose text is the schedule label, the retrieval fails with the error of the missing
  schedule URL, an error value and not a panic, and the request for the landing page is
  the only request sent.
\<close>

theorem no_schedule_link:
  assumes "http_Get c (landingUrl courseCode) = Inr body"
      and "html_Parse c body = Inr root"
      and "\<forall>n\<in>set (subnodes root). \<not> (DataAtom n = atom_A \<and> scrape_Text n = scheduleLinkText)"
  shows "GetCourseEvents c courseCode =
       (Inl ScheduleUrlNotFound, [HttpGet (landingUrl courseCode)]) \<and>
     \<not> is_panic ScheduleUrlNotFound"
proof -
  have "\<forall>n\<in>set (subnodes root). \<not> linkMatcher n"
    using assms(3) by (simp add: linkMatcher_def)
  then have "Find linkMatcher root = None"
    by (simp add: Find_None)
  then have "getRelativeScheduleUrl c body = Inl ScheduleUrlNotFound"
    using assms(2) by (simp add: getRelativeScheduleUrl_def)
  then show ?thesis
    using assms(1) by (simp add: GetCourseEvents_def)
qed

theorem no_schedule_link_witness:
  "http_Get (sampleWeb linklessPage errorPage) (landingUrl (str ''NMAI057'')) = Inr linklessPage \<and>
   Find linkMatcher linklessPage = None \<and>
   GetCourseEvents (sampleWeb linklessPage errorPage) (str ''NMAI057'') =
     (Inl ScheduleUrlNotFound, [HttpGet (landingUrl (str ''NMAI057''))])"
proof -
  let ?c = "sampleWeb linklessPage errorPage"
  have g: "http_Get ?c (landingUrl (str ''NMAI057'')) = Inr linklessPage"
    using landingUrl_not_r by (simp add: sampleWeb_def)
  have p: "html_Parse ?c linklessPage = Inr linklessPage"
    by (simp add: sampleWeb_def)
  have none: "\<forall>n\<in>set (subnodes linklessPage).
      \<not> (DataAtom n = atom_A \<and> scrape_Text n = scheduleLinkText)"
    by (simp add: linklessPage_def element_def textNode_def scrape_Text_def
        scheduleLinkText_def TrimSpace_def isSpace_def str_def)
  then have "Find linkMatcher linklessPage = None"
    by (simp add: Find_None linkMatcher_def)
  with no_schedule_link [OF g p none] g show ?thesis by simp
qed

section \<open>The response bodies\<close>

text \<open>
  C9, as the code has it: the retrieval closes no response body, on any path: its effects
  are requests only.
\<close>

theorem bodies_never_closed:
  "BodyClose b \<notin> set (snd (GetCourseEvents c courseCode))"
  by (simp add: GetCourseEvents_def split: sum.splits)

text \<open>
  The claim as stated fails on a retrieval that succeeds: both bodies are acquired and
  parsed, and neither is closed.
\<close>

theorem bodies_left_open_counterexample:
  "http_Get (sampleWeb landingPage errorPage) (landingUrl (str ''NMAI057'')) = Inr landingPage \<and>
   http_Get (sampleWeb landingPage errorPage) (str ''/r'') = Inr errorPage \<and>
   GetCourseEvents (sampleWeb landingPage errorPage) (str ''NMAI057'') =
     (Inr [], [HttpGet (landingUrl (str ''NMAI057'')), HttpGet (str ''/r'')]) \<and>
   count_list [HttpGet (landingUrl (str ''NMAI057'')), HttpGet (str ''/r'')]
     (BodyClose landingPage) \<noteq> 1 \<and>
   count_list [HttpGet (landingUrl (str ''NMAI057'')), HttpGet (str ''/r'')]
     (BodyClose errorPage) \<noteq> 1"
proof -
  let ?c = "sampleWeb landingPage errorPage"
  have g1: "http_Get ?c (landingUrl (str ''NMAI057'')) = Inr landingPage"
    using landingUrl_not_r by (simp add: sampleWeb_def)
  have g2: "http_Get ?c (str ''/r'') = Inr errorPage"
    by (simp add: sampleWeb_def)
  have ab: "getAbsoluteUrl ?c sisUrl (str ''/r'') = Inr (str ''/r'')"
    by (simp add: getAbsoluteUrl_def sampleWeb_def)
  have "eventsTable errorPage = []"
    by (simp add: eventsTable_def errorPage_def element_def textNode_def rowMatcher_def)
  then have "parseCourseEvents ?c errorPage = Inr []"
    by (simp add: parseCourseEvents_def groupTable_def sampleWeb_def)
  then have "GetCourseEvents ?c (str ''NMAI057'') =
     (Inr [], [HttpGet (landingUrl (str ''NMAI057'')), HttpGet (str ''/r'')])"
    using g1 g2 ab landingPage_link [of errorPage] by (simp add: GetCourseEvents_def)
  then show ?thesis using g1 g2 by simp
qed

section \<open>Rows with too few cells\<close>

text \<open>
  C10: \<open>parseEvent\<close> reads the cells at fixed positions with no check of the length. A
  row of fewer than four cells panics with an index out of range (at the first of the
  positions 1, 2 and 3 that is missing); a row with a teacher and fewer than seven cells
  panics at position 4 when it has four cells and at position 6 otherwise. It returns
  neither the empty event nor an error value.
\<close>

theorem parseEvent_out_of_range:
  "(length (cols row) < 4 \<longrightarrow>
      parseEvent row =
        Inl (PanicIndexOutOfRange (if length (cols row) < 2 then 1 else length (cols row))
          (length (cols row)))) \<and>
   (4 \<le> length (cols row) \<and> length (cols row) < 7 \<and> cols row ! 3 \<noteq> [] \<longrightarrow>
      parseEvent row =
        Inl (PanicIndexOutOfRange (if length (cols row) = 4 then 4 else 6) (length (cols row)))) \<and>
   is_panic (PanicIndexOutOfRange i n)"
proof -
  have short: "parseEvent row =
      Inl (PanicIndexOutOfRange (if length (cols row) < 2 then 1 else length (cols row))
        (length (cols row)))" if "length (cols row) < 4"
  proof -
    have "length (cols row) < 2 \<or> length (cols row) = 2 \<or> length (cols row) = 3"
      using that by arith
    then show ?thesis
      by (auto simp add: parseEvent_def index_def)
  qed
  have unscheduled: "parseEvent row =
      Inl (PanicIndexOutOfRange (if length (cols row) = 4 then 4 else 6) (length (cols row)))"
    if "4 \<le> length (cols row)" "length (cols row) < 7" "cols row ! 3 \<noteq> []"
    using that by (simp add: parseEvent_def index_def)
  from short unscheduled show ?thesis by simp
qed

theorem parseEvent_out_of_range_witness:
  "length (cols shortRow) = 3 \<and> parseEvent shortRow = Inl (PanicIndexOutOfRange 3 3) \<and>
   length (cols unscheduledRow) = 5 \<and> cols unscheduledRow ! 3 \<noteq> [] \<and>
   parseEvent unscheduledRow = Inl (PanicIndexOutOfRange 6 5)"
proof -
  have s: "length (cols shortRow) = 3"
    by (simp add: shortRow_def cols_tableRow)
  have u: "length (cols unscheduledRow) = 5" "cols unscheduledRow ! 3 \<noteq> []"
    by (simp_all add: unscheduledRow_def cols_tableRow TrimSpace_def isSpace_def str_def)
  from parseEvent_out_of_range [of shortRow] parseEvent_out_of_range [of unscheduledRow] s u
  show ?thesis by simp
qed

end
